theory Spec2Isabelle
  imports Complex_Main
begin

section \<open>JavaScript values used by the application\<close>

text \<open>
  Monetary amounts, scores and counters are JavaScript numbers that the application only
  ever combines by integer addition, subtraction, \<open>Math.max\<close> and \<open>Math.min\<close>; they are
  modelled as \<open>int\<close>. An optional field (\<open>dailyLimit?: number\<close>) is an \<open>option\<close>, with
  \<open>None\<close> for \<open>undefined\<close>. Strings are \<open>string\<close>; the model covers ASCII text.
\<close>

text \<open>\<open>x || d\<close> on an optional number: \<open>undefined\<close> and \<open>0\<close> are falsy.\<close>

definition or_default :: "int option \<Rightarrow> int \<Rightarrow> int" where
  "or_default x d = (case x of None \<Rightarrow> d | Some v \<Rightarrow> if v = 0 then d else v)"

text \<open>\<open>x ?? d\<close>: only \<open>undefined\<close> is replaced.\<close>

definition nullish :: "'a option \<Rightarrow> 'a \<Rightarrow> 'a" where
  "nullish x d = (case x of None \<Rightarrow> d | Some v \<Rightarrow> v)"

text \<open>\<open>Math.floor(Math.random() * n)\<close>, with the value \<open>u\<close> of \<open>Math.random()\<close> as an input.\<close>

definition floorRandom :: "real \<Rightarrow> int \<Rightarrow> int" where
  "floorRandom u n = \<lfloor>u * of_int n\<rfloor>"

text \<open>\<open>Number.prototype.toString()\<close> for integers.\<close>

definition digitChar :: "nat \<Rightarrow> char" where
  "digitChar d = char_of (48 + d)"

fun decimal :: "nat \<Rightarrow> string" where
  "decimal n = (if n < 10 then [digitChar n] else decimal (n div 10) @ [digitChar (n mod 10)])"

definition toString :: "int \<Rightarrow> string" where
  "toString i = (if i < 0 then CHR ''-'' # decimal (nat (- i)) else decimal (nat i))"

text \<open>\<open>String.prototype.toLowerCase()\<close> and \<open>trim()\<close> on ASCII text.\<close>

definition charCode :: "char \<Rightarrow> nat" where
  "charCode c = of_char c"

definition lowerChar :: "char \<Rightarrow> char" where
  "lowerChar c = (if 65 \<le> charCode c \<and> charCode c \<le> 90 then char_of (charCode c + 32) else c)"

definition toLowerCase :: "string \<Rightarrow> string" where
  "toLowerCase s = map lowerChar s"

definition isWhiteSpace :: "char \<Rightarrow> bool" where
  "isWhiteSpace c = (charCode c = 32 \<or> (9 \<le> charCode c \<and> charCode c \<le> 13))"

definition trim :: "string \<Rightarrow> string" where
  "trim s = rev (dropWhile isWhiteSpace (rev (dropWhile isWhiteSpace s)))"

section \<open>Data model (App.tsx)\<close>

record UserStats =
  earnings :: int
  performance :: int
  eligibility :: int
  surveysCompleted :: int
  dailyCount :: "int option"
  lastSurveyDate :: "string option"
  dailyEarnings :: "int option"
  dailyLimit :: "int option"

text \<open>\<open>EarningEntry\<close>; its fields \<open>id\<close>, \<open>date\<close> and \<open>title\<close> carry the prefix \<open>entry\<close>.\<close>

record EarningEntry =
  entryId :: int
  entryDate :: string
  amount :: int
  entryTitle :: string

record Notifications =
  email :: bool
  sms :: bool
  marketing :: bool

record UserSettings =
  notifications :: Notifications
  language :: string

text \<open>\<open>profile?: any\<close> is kept opaque, as its serialised text.\<close>

type_synonym profile = string

record UserData =
  username :: string
  password :: "string option"
  mpesaCode :: "string option"
  profile :: "profile option"
  stats :: "UserStats option"
  earningsHistory :: "EarningEntry list option"
  settings :: "UserSettings option"

text \<open>
  \<open>Partial<UserData>\<close>: every key may be missing (\<open>None\<close>); a key that is present holds a
  value of the field's own type.
\<close>

record UserDataPatch =
  p_username :: "string option"
  p_password :: "string option option"
  p_mpesaCode :: "string option option"
  p_profile :: "profile option option"
  p_stats :: "UserStats option option"
  p_earningsHistory :: "EarningEntry list option option"
  p_settings :: "UserSettings option option"

definition emptyPatch :: UserDataPatch where
  "emptyPatch = \<lparr>p_username = None, p_password = None, p_mpesaCode = None, p_profile = None,
     p_stats = None, p_earningsHistory = None, p_settings = None\<rparr>"


text \<open>
  The default statistics literal, written out in \<open>handleRegisterSuccess\<close> (twice) and in the
  dashboard's initialiser; \<open>today\<close> is \<open>new Date().toDateString()\<close>.
\<close>

definition defaultStats :: "string \<Rightarrow> UserStats" where
  "defaultStats today =
     \<lparr>earnings = 0, performance = 65, eligibility = 40, surveysCompleted = 0,
      dailyCount = Some 0, lastSurveyDate = Some today, dailyEarnings = Some 0,
      dailyLimit = Some 250\<rparr>"

section \<open>Dashboard (components/Dashboard.tsx)\<close>

datatype ViewState =
  Home | Profile | Settings | Help | History | Survey | SurveyList | UpgradeLimit | Invite

record SurveyQuestion =
  questionId :: int
  questionText :: string
  options :: "string list"

record SurveyOption =
  surveyId :: string
  surveyTitle :: string
  category :: string
  timeMinutes :: int
  reward :: int
  description :: string

record GlobalStats =
  date :: string
  count :: int

text \<open>
  The component's state. \<open>statsState\<close> and \<open>historyState\<close> are the state variables \<open>stats\<close>
  and \<open>earningsHistory\<close>, renamed apart from the fields of \<open>UserData\<close>.
\<close>

record Dashboard =
  view :: ViewState
  globalStats :: GlobalStats
  statsState :: UserStats
  historyState :: "EarningEntry list"
  isSurveying :: bool
  lastEarned :: "int option"
  activeQuestions :: "SurveyQuestion list"
  selectedSurvey :: "SurveyOption option"

definition GLOBAL_DAILY_CAP :: int where
  "GLOBAL_DAILY_CAP = 100000"


text \<open>Initialiser of \<open>stats\<close>: the daily reset on a change of date.\<close>

definition initStats :: "string \<Rightarrow> UserData \<Rightarrow> UserStats" where
  "initStats today currentUser =
     (let current = (case stats currentUser of Some s \<Rightarrow> s | None \<Rightarrow> defaultStats today)
      in if lastSurveyDate current \<noteq> Some today then
           current\<lparr>dailyCount := Some 0,
                   dailyEarnings := Some 0,
                   lastSurveyDate := Some today,
                   dailyLimit := Some (or_default (dailyLimit current) 250)\<rparr>
         else
           current\<lparr>dailyCount := Some (nullish (dailyCount current) 0),
                   dailyEarnings := Some (nullish (dailyEarnings current) 0),
                   lastSurveyDate := Some today,
                   dailyLimit := Some (or_default (dailyLimit current) 250)\<rparr>)"


text \<open>\<open>currentDailyCap = stats.dailyLimit || 250\<close>.\<close>

definition currentDailyCap :: "Dashboard \<Rightarrow> int" where
  "currentDailyCap d = or_default (dailyLimit (statsState d)) 250"

definition isHighPerformer :: "Dashboard \<Rightarrow> bool" where
  "isHighPerformer d = (performance (statsState d) \<ge> 75)"

definition DAILY_LIMIT :: "Dashboard \<Rightarrow> int" where
  "DAILY_LIMIT d = (if isHighPerformer d then 7 else 3)"

definition fallbackQuestions :: "SurveyQuestion list" where
  "fallbackQuestions =
     [\<lparr>questionId = 1, questionText = ''How often do you use this service?'',
        options = [''Daily'', ''Weekly'', ''Monthly'', ''Rarely'']\<rparr>,
      \<lparr>questionId = 2, questionText = ''How satisfied are you with current options?'',
        options = [''Very Satisfied'', ''Satisfied'', ''Neutral'', ''Dissatisfied'']\<rparr>,
      \<lparr>questionId = 3, questionText = ''What factor matters most to you?'',
        options = [''Price'', ''Quality'', ''Convenience'', ''Brand'']\<rparr>,
      \<lparr>questionId = 4, questionText = ''Would you recommend this to a friend?'',
        options = [''Definitely'', ''Probably'', ''Unlikely'', ''Never'']\<rparr>,
      \<lparr>questionId = 5, questionText = ''How much do you spend on this monthly?'',
        options = [''< KES 1000'', ''KES 1000-5000'', ''KES 5000+'', ''Prefer not to say'']\<rparr>]"

definition availableSurveys :: "SurveyOption list" where
  "availableSurveys =
     [\<lparr>surveyId = ''tech-trends'', surveyTitle = ''Digital Trends 2025'',
        category = ''Technology'', timeMinutes = 5, reward = 75,
        description = ''Share your thoughts on AI, smart devices, and the future of tech.''\<rparr>,
      \<lparr>surveyId = ''consumer-habits'', surveyTitle = ''Global Shopping Preferences'',
        category = ''Retail'', timeMinutes = 8, reward = 120,
        description = ''How do you shop? Compare online vs in-store experiences.''\<rparr>,
      \<lparr>surveyId = ''lifestyle-wellness'', surveyTitle = ''Modern Lifestyle & Wellness'',
        category = ''Health'', timeMinutes = 4, reward = 55,
        description = ''Quick questions about diet, exercise, and daily routines.''\<rparr>,
      \<lparr>surveyId = ''finance-banking'', surveyTitle = ''Mobile Banking Usage'',
        category = ''Finance'', timeMinutes = 6, reward = 90,
        description = ''Your experience with digital payments and mobile money.''\<rparr>]"

text \<open>
  What \<open>handleSurveySelect\<close> does before its first \<open>await\<close>: the silent return while a
  survey is being prepared, the three alerts or prompts, or the start of the survey.
\<close>

datatype SelectOutcome =
  Ignored | GlobalLimitAlert | EarningsCapPrompt | SurveyLimitAlert | Started

text \<open>
  \<open>confirmUpgrade\<close> is the user's answer to the \<open>confirm\<close> dialog of the earnings gate.
\<close>

definition handleSurveySelect ::
  "SurveyOption \<Rightarrow> bool \<Rightarrow> Dashboard \<Rightarrow> SelectOutcome \<times> Dashboard" where
  "handleSurveySelect survey confirmUpgrade d =
     (if isSurveying d then (Ignored, d)
      else if count (globalStats d) \<ge> GLOBAL_DAILY_CAP then (GlobalLimitAlert, d)
      else if or_default (dailyEarnings (statsState d)) 0 \<ge> currentDailyCap d then
        (EarningsCapPrompt, if confirmUpgrade then d\<lparr>view := UpgradeLimit\<rparr> else d)
      else if or_default (dailyCount (statsState d)) 0 \<ge> DAILY_LIMIT d then
        (SurveyLimitAlert, d)
      else
        (Started,
         d\<lparr>selectedSurvey := Some survey,
           isSurveying := True,
           lastEarned := None,
           globalStats := (globalStats d)\<lparr>count := count (globalStats d) + 1\<rparr>\<rparr>))"

text \<open>
  The rest of \<open>handleSurveySelect\<close>, after the \<open>await\<close>: \<open>generated\<close> is the parsed answer
  of the text provider, \<open>None\<close> when the call or the parse throws.
\<close>

definition handleSurveySelect_resume :: "SurveyQuestion list option \<Rightarrow> Dashboard \<Rightarrow> Dashboard" where
  "handleSurveySelect_resume generated d =
     (case generated of
        Some questions \<Rightarrow>
          if length questions > 0 then
            d\<lparr>activeQuestions := questions, view := Survey, isSurveying := False\<rparr>
          else d\<lparr>activeQuestions := fallbackQuestions, view := Survey, isSurveying := False\<rparr>
      | None \<Rightarrow> d\<lparr>activeQuestions := fallbackQuestions, view := Survey, isSurveying := False\<rparr>)"

text \<open>
  \<open>handleProcessRewards\<close>. Inputs besides the state: \<open>today\<close> (\<open>toDateString\<close>), \<open>now\<close>
  (\<open>Date.now()\<close>), \<open>label\<close> (\<open>toLocaleDateString\<close>) and the three values of
  \<open>Math.random()\<close>. Result: the returned amount, the argument of \<open>onUpdateUser\<close>, and the
  new state.
\<close>

definition handleProcessRewards ::
  "string \<Rightarrow> int \<Rightarrow> string \<Rightarrow> real \<Rightarrow> real \<Rightarrow> real \<Rightarrow> Dashboard
     \<Rightarrow> int \<times> UserDataPatch \<times> Dashboard" where
  "handleProcessRewards today now label u1 u2 u3 d =
     (let st = statsState d;
          baseReward = (case selectedSurvey d of Some s \<Rightarrow> reward s | None \<Rightarrow> 50);
          variance = floorRandom u1 16 - 5;
          earned0 = max 10 (baseReward + variance);
          currentDaily = or_default (dailyEarnings st) 0;
          effectiveLimit = or_default (dailyLimit st) 250;
          earnedAmount = (if currentDaily + earned0 > effectiveLimit
                          then max 0 (effectiveLimit - currentDaily) else earned0);
          perfBoost = floorRandom u2 8 + 2;
          eligBoost = floorRandom u3 12 + 5;
          newStats = \<lparr>earnings = earnings st + earnedAmount,
                      performance = min 100 (performance st + perfBoost),
                      eligibility = min 100 (eligibility st + eligBoost),
                      surveysCompleted = surveysCompleted st + 1,
                      dailyCount = Some (or_default (dailyCount st) 0 + 1),
                      lastSurveyDate = Some today,
                      dailyEarnings = Some (currentDaily + earnedAmount),
                      dailyLimit = Some effectiveLimit\<rparr>;
          newEntry = \<lparr>entryId = now, entryDate = label, amount = earnedAmount,
                      entryTitle = (case selectedSurvey d of
                                      Some s \<Rightarrow> surveyTitle s
                                    | None \<Rightarrow> ''Premium Survey #'' @ toString (surveysCompleted newStats))\<rparr>;
          newHistory = newEntry # historyState d
      in (earnedAmount,
          emptyPatch\<lparr>p_stats := Some (Some newStats), p_earningsHistory := Some (Some newHistory)\<rparr>,
          d\<lparr>statsState := newStats, historyState := newHistory, lastEarned := Some earnedAmount\<rparr>))"

definition handleUpgradeLimit :: "int \<Rightarrow> Dashboard \<Rightarrow> UserDataPatch \<times> Dashboard" where
  "handleUpgradeLimit newLimit d =
     (let newStats = (statsState d)\<lparr>dailyLimit := Some newLimit\<rparr>
      in (emptyPatch\<lparr>p_stats := Some (Some newStats)\<rparr>,
          d\<lparr>statsState := newStats, view := Home\<rparr>))"

text \<open>The block state computed for the home view.\<close>

definition remainingSurveys :: "Dashboard \<Rightarrow> int" where
  "remainingSurveys d = max 0 (DAILY_LIMIT d - or_default (dailyCount (statsState d)) 0)"

definition remainingGlobal :: "Dashboard \<Rightarrow> int" where
  "remainingGlobal d = max 0 (GLOBAL_DAILY_CAP - count (globalStats d))"

definition remainingEarnings :: "Dashboard \<Rightarrow> int" where
  "remainingEarnings d = max 0 (currentDailyCap d - or_default (dailyEarnings (statsState d)) 0)"

definition isGlobalLimitReached :: "Dashboard \<Rightarrow> bool" where
  "isGlobalLimitReached d = (remainingGlobal d = 0)"

definition isUserLimitReached :: "Dashboard \<Rightarrow> bool" where
  "isUserLimitReached d = (remainingSurveys d = 0)"

definition isEarningsLimitReached :: "Dashboard \<Rightarrow> bool" where
  "isEarningsLimitReached d = (remainingEarnings d < 10)"

definition isBlocked :: "Dashboard \<Rightarrow> bool" where
  "isBlocked d = (isGlobalLimitReached d \<or> isUserLimitReached d \<or> isEarningsLimitReached d)"

definition blockReason :: "Dashboard \<Rightarrow> string" where
  "blockReason d =
     (if isGlobalLimitReached d then ''Global 100k Limit Reached''
      else if isUserLimitReached d then ''Daily Survey Limit Reached''
      else if isEarningsLimitReached d then ''Daily Earnings Cap Reached''
      else [])"

text \<open>The \<open>disabled\<close> attribute and the \<open>onClick\<close> handler of the start-survey button.\<close>

definition startDisabled :: "Dashboard \<Rightarrow> bool" where
  "startDisabled d = (isBlocked d \<and> \<not> (isEarningsLimitReached d \<and> currentDailyCap d < 1000))"

definition startOnClick :: "Dashboard \<Rightarrow> Dashboard" where
  "startOnClick d =
     (if isEarningsLimitReached d \<and> currentDailyCap d < 1000 then d\<lparr>view := UpgradeLimit\<rparr>
      else if isBlocked d then d
      else d\<lparr>view := SurveyList\<rparr>)"

section \<open>Application shell (App.tsx)\<close>

text \<open>
  The repository holds two versions of \<open>App.tsx\<close>. The later one captures a referral code
  from the entry URL and credits the referrer in \<open>handleRegisterSuccess\<close>; the earlier one
  is the same without the referral block (the model with \<open>referralCode = None\<close>).
  \<open>handleUpdateUser\<close> and \<open>handlePasswordReset\<close> are identical in both.
\<close>

datatype AppView = LoginView | RegisterView | DashboardView

record App =
  registeredUsers :: "UserData list"
  currentUser :: "UserData option"
  referralCode :: "string option"
  currentView :: AppView

text \<open>\<open>Array.prototype.findIndex\<close>, with \<open>None\<close> for the result -1.\<close>

fun findIndex :: "('a \<Rightarrow> bool) \<Rightarrow> 'a list \<Rightarrow> nat option" where
  "findIndex P [] = None"
| "findIndex P (x # xs) = (if P x then Some 0 else map_option Suc (findIndex P xs))"

text \<open>\<open>Array.prototype.find\<close>.\<close>

fun findFirst :: "('a \<Rightarrow> bool) \<Rightarrow> 'a list \<Rightarrow> 'a option" where
  "findFirst P [] = None"
| "findFirst P (x # xs) = (if P x then Some x else findFirst P xs)"

definition defaultSettings :: UserSettings where
  "defaultSettings =
     \<lparr>notifications = \<lparr>email = True, sms = True, marketing = False\<rparr>, language = ''en''\<rparr>"

definition handleLoginSuccess :: "UserData \<Rightarrow> App \<Rightarrow> App" where
  "handleLoginSuccess user app = app\<lparr>currentUser := Some user, currentView := DashboardView\<rparr>"

definition handleLogout :: "App \<Rightarrow> App" where
  "handleLogout app = app\<lparr>currentUser := None, currentView := LoginView\<rparr>"

text \<open>
  \<open>handleRegisterSuccess\<close>; \<open>today\<close>, \<open>now\<close> and \<open>label\<close> are the three readings of the clock.
  The guard \<open>referralCode && referralCode !== newUser.username\<close> is false for \<open>null\<close> and
  for the empty string. Inside the referral block the session may be set to the referrer's
  record, and is then set to the new user by the last statements, so the session after the
  handler is the new user in every case.
\<close>

definition handleRegisterSuccess :: "string \<Rightarrow> int \<Rightarrow> string \<Rightarrow> UserData \<Rightarrow> App \<Rightarrow> App" where
  "handleRegisterSuccess today now label newUser app =
     (let userWithDefaults =
            newUser\<lparr>stats := Some (defaultStats today),
                    earningsHistory := Some [],
                    settings := Some defaultSettings\<rparr>;
          updatedUserList = registeredUsers app @ [userWithDefaults];
          finalUserList =
            (case referralCode app of
               None \<Rightarrow> updatedUserList
             | Some code \<Rightarrow>
                 if code \<noteq> [] \<and> code \<noteq> username newUser then
                   (case findIndex (\<lambda>u. username u = code) updatedUserList of
                      None \<Rightarrow> updatedUserList
                    | Some referrerIndex \<Rightarrow>
                        let referrer = updatedUserList ! referrerIndex;
                            currentStats =
                              (case stats referrer of Some s \<Rightarrow> s | None \<Rightarrow> defaultStats today);
                            bonus = 50;
                            newStats = currentStats\<lparr>earnings := earnings currentStats + bonus\<rparr>;
                            newEntry = \<lparr>entryId = now, entryDate = label, amount = bonus,
                                        entryTitle = ''Referral Bonus: '' @ username newUser\<rparr>
                        in updatedUserList
                             [referrerIndex :=
                                referrer\<lparr>stats := Some newStats,
                                         earningsHistory :=
                                           Some (newEntry #
                                             (case earningsHistory referrer of
                                                Some h \<Rightarrow> h | None \<Rightarrow> []))\<rparr>])
                 else updatedUserList)
      in app\<lparr>registeredUsers := finalUserList,
             currentUser := Some userWithDefaults,
             currentView := DashboardView\<rparr>)"


definition handlePasswordReset :: "string \<Rightarrow> string \<Rightarrow> App \<Rightarrow> App" where
  "handlePasswordReset uname newPass app =
     app\<lparr>registeredUsers :=
           map (\<lambda>user. if toLowerCase (username user) = toLowerCase uname
                        then user\<lparr>password := Some newPass\<rparr> else user)
             (registeredUsers app)\<rparr>"

section \<open>One-time codes (RegisterForm.tsx, LoginForm.tsx)\<close>

definition isDigit :: "char \<Rightarrow> bool" where
  "isDigit c = (48 \<le> charCode c \<and> charCode c \<le> 57)"

definition isUpper :: "char \<Rightarrow> bool" where
  "isUpper c = (65 \<le> charCode c \<and> charCode c \<le> 90)"

definition isLower :: "char \<Rightarrow> bool" where
  "isLower c = (97 \<le> charCode c \<and> charCode c \<le> 122)"

text \<open>
  \<open>generateOtpWithAi\<close>, the same function in both forms. \<open>aiText\<close> is the text of the
  provider's answer, \<open>None\<close> when the call fails, has no text or loses the race against the
  five-second timeout; \<open>u\<close> is the value of \<open>Math.random()\<close> read by the fallback.
\<close>

definition generateOtpWithAi :: "string option \<Rightarrow> real \<Rightarrow> string" where
  "generateOtpWithAi aiText u =
     (let fallback = toString \<lfloor>10000 + u * 90000\<rfloor>
      in case aiText of
           None \<Rightarrow> fallback
         | Some t \<Rightarrow>
             let text = take 5 (filter isDigit (trim t))
             in if text \<noteq> [] \<and> length text = 5 then text else fallback)"

record Notification =
  noteTitle :: string
  noteMessage :: string
  noteCode :: string

text \<open>
  The call \<open>showOtpNotification(channelName, message || fallback, otpCode)\<close>, where the
  fallback is the text \<open>Your verification code is\<close> followed by the code; \<open>message\<close> is the
  value of \<open>generateMessageContent\<close>, \<open>None\<close> for \<open>undefined\<close>.
\<close>

definition showOtpNotification :: "string \<Rightarrow> string option \<Rightarrow> string \<Rightarrow> Notification" where
  "showOtpNotification channelName message otpCode =
     \<lparr>noteTitle = ''New '' @ channelName,
      noteMessage = (case message of
                       None \<Rightarrow> ''Your verification code is '' @ otpCode
                     | Some m \<Rightarrow> if m = [] then ''Your verification code is '' @ otpCode else m),
      noteCode = otpCode\<rparr>"

text \<open>
  The assignment \<open>newOtp[index] = value\<close> on a copy of the array; an index past the end
  extends the array with holes, which \<open>join\<close> renders as empty strings.
\<close>

definition setDigit :: "string list \<Rightarrow> nat \<Rightarrow> string \<Rightarrow> string list" where
  "setDigit otp index v =
     (if index < length otp then otp[index := v]
      else otp @ replicate (index - length otp) [] @ [v])"

definition validatePassword :: "string \<Rightarrow> string option" where
  "validatePassword pwd =
     (if length pwd < 8 then Some ''Password must be at least 8 characters.''
      else if CHR ''_'' \<in> set pwd then Some ''Password cannot contain underscores.''
      else if \<not> list_ex isUpper pwd then Some ''Password must contain an uppercase letter.''
      else if \<not> list_ex isLower pwd then Some ''Password must contain a lowercase letter.''
      else None)"

text \<open>The test of the transaction code: exactly ten letters or digits.\<close>

definition mpesaRegex :: "string \<Rightarrow> bool" where
  "mpesaRegex s = (length s = 10 \<and> list_all (\<lambda>c. isUpper c \<or> isLower c \<or> isDigit c) s)"

subsection \<open>RegisterForm\<close>

datatype RegisterStep = Details | Otp | Confirmation

record RegisterData =
  formUsername :: string
  formPassword :: string
  formMpesaCode :: string

text \<open>
  The component's state; \<open>regErrors\<close> is the object of messages by field name. The field
  names carry the prefix \<open>reg\<close>, apart from those of \<open>LoginForm\<close>.
\<close>

record RegisterForm =
  regStep :: RegisterStep
  regFormData :: RegisterData
  regErrors :: "(string \<times> string) list"
  regIsLoading :: bool
  regOtp :: "string list"
  regGeneratedOtp :: string
  regNotification :: "Notification option"

definition initRegisterForm :: RegisterForm where
  "initRegisterForm =
     \<lparr>regStep = Details,
      regFormData = \<lparr>formUsername = [], formPassword = [], formMpesaCode = []\<rparr>,
      regErrors = [],
      regIsLoading = False,
      regOtp = [[], [], [], [], []],
      regGeneratedOtp = [],
      regNotification = None\<rparr>"

text \<open>
  \<open>handleDetailsSubmit\<close>, run to its end. \<open>users\<close> is the \<open>registeredUsers\<close> property; the
  handler has no way to change it. \<open>aiText\<close> and \<open>u\<close> feed \<open>generateOtpWithAi\<close>, \<open>message\<close>
  is the value of \<open>generateMessageContent\<close>.
\<close>

definition handleDetailsSubmit ::
  "UserData list \<Rightarrow> string option \<Rightarrow> real \<Rightarrow> string option \<Rightarrow> RegisterForm \<Rightarrow> RegisterForm" where
  "handleDetailsSubmit users aiText u message f =
     (let cleanUsername = trim (formUsername (regFormData f));
          exists = list_ex (\<lambda>u. toLowerCase (username u) = toLowerCase cleanUsername) users
      in if exists then
           f\<lparr>regErrors := [(''username'', ''Account already exists.'')],
             regIsLoading := False, regNotification := None\<rparr>
         else case validatePassword (formPassword (regFormData f)) of
           Some pwdError \<Rightarrow>
             f\<lparr>regErrors := [(''password'', pwdError)],
               regIsLoading := False, regNotification := None\<rparr>
         | None \<Rightarrow>
             if formMpesaCode (regFormData f) = [] \<or> \<not> mpesaRegex (formMpesaCode (regFormData f))
             then
               f\<lparr>regErrors := [(''mpesaCode'',
                      ''Transaction code must be exactly 10 alphanumeric characters.'')],
                 regIsLoading := False, regNotification := None\<rparr>
             else
               let otpCode = generateOtpWithAi aiText u;
                   channelName = (if CHR ''@'' \<in> set cleanUsername then ''Email'' else ''Message'')
               in f\<lparr>regErrors := [],
                    regGeneratedOtp := otpCode,
                    regNotification := Some (showOtpNotification channelName message otpCode),
                    regIsLoading := False,
                    regStep := Otp\<rparr>)"

definition regHandleOtpChange :: "nat \<Rightarrow> string \<Rightarrow> RegisterForm \<Rightarrow> RegisterForm" where
  "regHandleOtpChange index v f =
     (if \<not> list_all isDigit v then f else f\<lparr>regOtp := setDigit (regOtp f) index v\<rparr>)"

definition regHandleOtpSubmit :: "RegisterForm \<Rightarrow> RegisterForm" where
  "regHandleOtpSubmit f =
     (let enteredOtp = concat (regOtp f)
      in if enteredOtp = regGeneratedOtp f then
           f\<lparr>regIsLoading := False, regStep := Confirmation\<rparr>
         else
           f\<lparr>regErrors := [(''otp'', ''Invalid OTP. Please try again.'')],
             regIsLoading := False\<rparr>)"

definition regHandleResendOtp ::
  "string option \<Rightarrow> real \<Rightarrow> string option \<Rightarrow> RegisterForm \<Rightarrow> RegisterForm" where
  "regHandleResendOtp aiText u message f =
     (let otpCode = generateOtpWithAi aiText u;
          channelName = (if CHR ''@'' \<in> set (formUsername (regFormData f))
                         then ''Email'' else ''Message'')
      in f\<lparr>regGeneratedOtp := otpCode,
           regNotification := Some (showOtpNotification channelName message otpCode),
           regIsLoading := False\<rparr>)"

text \<open>
  The button of the confirmation step: the argument it passes to \<open>onRegisterSuccess\<close>, which
  the application shell runs as \<open>handleRegisterSuccess\<close>.
\<close>

definition confirmRegistration :: "RegisterForm \<Rightarrow> UserData" where
  "confirmRegistration f =
     \<lparr>username = formUsername (regFormData f),
      password = Some (formPassword (regFormData f)),
      mpesaCode = Some (formMpesaCode (regFormData f)),
      profile = None, stats = None, earningsHistory = None, settings = None\<rparr>"

subsection \<open>LoginForm\<close>

datatype LoginStep = Credentials | LoginOtp | ForgotRequest | ForgotVerify | ForgotReset

record LoginData =
  loginUsername :: string
  loginPassword :: string

record LoginForm =
  loginStep :: LoginStep
  loginFormData :: LoginData
  agreed :: bool
  loginIsLoading :: bool
  loginError :: string
  loginOtp :: "string list"
  loginGeneratedOtp :: string
  matchedUser :: "UserData option"
  forgotUsername :: string
  loginNotification :: "Notification option"

definition handleCredentialsSubmit ::
  "UserData list \<Rightarrow> string option \<Rightarrow> real \<Rightarrow> string option \<Rightarrow> LoginForm \<Rightarrow> LoginForm" where
  "handleCredentialsSubmit users aiText u message f =
     (if \<not> agreed f then f
      else case findFirst (\<lambda>u. toLowerCase (username u)
                                = toLowerCase (loginUsername (loginFormData f))) users of
        None \<Rightarrow>
          f\<lparr>loginIsLoading := False, loginNotification := None,
            loginError := ''Account not found. Please register first.''\<rparr>
      | Some user \<Rightarrow>
          if password user \<noteq> Some (loginPassword (loginFormData f)) then
            f\<lparr>loginIsLoading := False, loginNotification := None,
              loginError := ''Invalid password.''\<rparr>
          else
            let otpCode = generateOtpWithAi aiText u;
                channelName = (if CHR ''@'' \<in> set (username user) then ''Email'' else ''Message'')
            in f\<lparr>loginError := [],
                 matchedUser := Some user,
                 loginGeneratedOtp := otpCode,
                 loginNotification := Some (showOtpNotification channelName message otpCode),
                 loginIsLoading := False,
                 loginStep := LoginOtp\<rparr>)"

text \<open>
  \<open>handleOtpSubmit\<close> of the login form: the new state and, on success, the argument of
  \<open>onLoginSuccess\<close>.
\<close>

definition loginHandleOtpSubmit :: "LoginForm \<Rightarrow> UserData option \<times> LoginForm" where
  "loginHandleOtpSubmit f =
     (let enteredOtp = concat (loginOtp f)
      in case matchedUser f of
           Some user \<Rightarrow>
             if enteredOtp = loginGeneratedOtp f
             then (Some user, f\<lparr>loginIsLoading := True, loginError := []\<rparr>)
             else (None, f\<lparr>loginIsLoading := False,
                           loginError := ''Invalid verification code. Please try again.''\<rparr>)
         | None \<Rightarrow>
             (None, f\<lparr>loginIsLoading := False,
                      loginError := ''Invalid verification code. Please try again.''\<rparr>))"

definition handleForgotVerifySubmit :: "LoginForm \<Rightarrow> LoginForm" where
  "handleForgotVerifySubmit f =
     (let enteredOtp = concat (loginOtp f)
      in if enteredOtp = loginGeneratedOtp f then f\<lparr>loginStep := ForgotReset\<rparr>
         else f\<lparr>loginError := ''Invalid OTP code.''\<rparr>)"

definition loginHandleResendOtp ::
  "string option \<Rightarrow> real \<Rightarrow> string option \<Rightarrow> LoginForm \<Rightarrow> LoginForm" where
  "loginHandleResendOtp aiText u message f =
     (let otpCode = generateOtpWithAi aiText u;
          channelName = (if CHR ''@'' \<in> set (loginUsername (loginFormData f))
                         then ''Email'' else ''Message'')
      in f\<lparr>loginGeneratedOtp := otpCode,
           loginNotification := Some (showOtpNotification channelName message otpCode),
           loginIsLoading := False\<rparr>)"

section \<open>States used as concrete instances\<close>

text \<open>
  The scenario of the specification: performance 80, six surveys done today, a cap of 250
  with 200 earned today, and the survey with nominal reward 75 selected.
\<close>

definition scenarioStats :: UserStats where
  "scenarioStats =
     \<lparr>earnings = 1200, performance = 80, eligibility = 60, surveysCompleted = 20,
      dailyCount = Some 6, lastSurveyDate = Some ''Tue Nov 03 2026'',
      dailyEarnings = Some 200, dailyLimit = Some 250\<rparr>"

definition scenarioDashboard :: Dashboard where
  "scenarioDashboard =
     \<lparr>view = Home,
      globalStats = \<lparr>date = ''Tue Nov 03 2026'', count = 99999\<rparr>,
      statsState = scenarioStats,
      historyState = [],
      isSurveying = False,
      lastEarned = None,
      activeQuestions = [],
      selectedSurvey = Some (availableSurveys ! 0)\<rparr>"

text \<open>A user record as stored the day before, with a raised cap.\<close>

definition yesterdayUser :: UserData where
  "yesterdayUser =
     \<lparr>username = ''alice'', password = Some ''Secret123'', mpesaCode = Some ''QWERTY1234'',
      profile = None,
      stats = Some (scenarioStats\<lparr>lastSurveyDate := Some ''Mon Nov 02 2026'',
                                  dailyLimit := Some 800\<rparr>),
      earningsHistory = Some [], settings = None\<rparr>"

definition nearCapDashboard :: Dashboard where
  "nearCapDashboard =
     scenarioDashboard
       \<lparr>globalStats := \<lparr>date = ''Tue Nov 03 2026'', count = 120\<rparr>,
        statsState := scenarioStats\<lparr>dailyCount := Some 2, dailyEarnings := Some 995,
                                   dailyLimit := Some 1000\<rparr>\<rparr>"

definition bobUser :: UserData where
  "bobUser =
     \<lparr>username = ''bob'', password = Some ''Secret123'', mpesaCode = Some ''ASDFGH5678'',
      profile = None, stats = None, earningsHistory = None, settings = None\<rparr>"


text \<open>The registry and the captured code when a visitor follows the link of \<open>alice\<close>.\<close>

definition referralApp :: App where
  "referralApp =
     \<lparr>registeredUsers = [yesterdayUser], currentUser = None,
      referralCode = Some ''alice'', currentView = RegisterView\<rparr>"

text \<open>
  The earnings and the history of a stored record as the application reads them:
  \<open>(u.stats || defaults).earnings\<close> and \<open>u.earningsHistory || []\<close>.
\<close>

definition earningsOf :: "UserData \<Rightarrow> int" where
  "earningsOf u = (case stats u of Some s \<Rightarrow> earnings s | None \<Rightarrow> 0)"

definition historyOf :: "UserData \<Rightarrow> EarningEntry list" where
  "historyOf u = (case earningsHistory u of Some h \<Rightarrow> h | None \<Rightarrow> [])"

text \<open>
  A registration form filled in with a user name that starts with a space, and the typing
  of a code into the five boxes, one character each.
\<close>

definition paddedForm :: RegisterForm where
  "paddedForm =
     initRegisterForm
       \<lparr>regFormData := \<lparr>formUsername = '' bob'', formPassword = ''Secret123'',
                         formMpesaCode = ''QWERTY1234''\<rparr>\<rparr>"

definition typeOtp :: "string \<Rightarrow> RegisterForm \<Rightarrow> RegisterForm" where
  "typeOtp code f = fold (\<lambda>(i, c) g. regHandleOtpChange i [c] g) (enumerate 0 code) f"

definition emptyApp :: App where
  "emptyApp =
     \<lparr>registeredUsers = [], currentUser = None, referralCode = None,
      currentView = RegisterView\<rparr>"

text \<open>
  The registry after \<open>'' bob''\<close> (with the leading space) has registered once, and the same
  name captured as referral code and typed again into the registration form.
\<close>

definition paddedBob :: UserData where
  "paddedBob =
     \<lparr>username = '' bob'', password = Some ''Secret123'', mpesaCode = Some ''QWERTY1234'',
      profile = None,
      stats = Some ((defaultStats ''Mon Nov 02 2026'')\<lparr>earnings := 120\<rparr>),
      earningsHistory = Some [], settings = Some defaultSettings\<rparr>"

definition selfReferralApp :: App where
  "selfReferralApp =
     \<lparr>registeredUsers = [paddedBob], currentUser = None,
      referralCode = Some '' bob'', currentView = RegisterView\<rparr>"

text \<open>A registration form at the code step, showing the code \<open>12345\<close> just typed in.\<close>

definition otpForm :: RegisterForm where
  "otpForm =
     initRegisterForm
       \<lparr>regStep := Otp,
        regFormData := \<lparr>formUsername = ''carol'', formPassword = ''Secret123'',
                         formMpesaCode = ''QWERTY1234''\<rparr>,
        regOtp := [''1'', ''2'', ''3'', ''4'', ''5''],
        regGeneratedOtp := ''12345''\<rparr>"

definition otpLogin :: LoginForm where
  "otpLogin =
     \<lparr>loginStep = LoginOtp,
      loginFormData = \<lparr>loginUsername = ''alice'', loginPassword = ''Secret123''\<rparr>,
      agreed = True, loginIsLoading = False, loginError = [],
      loginOtp = [''1'', ''2'', ''3'', ''4'', ''5''],
      loginGeneratedOtp = ''12345'',
      matchedUser = Some yesterdayUser,
      forgotUsername = [],
      loginNotification = None\<rparr>"








section \<open>Properties of the dashboard\<close>

subsection \<open>Reward processing\<close>

lemma floorRandom_range:
  assumes "0 \<le> u" and "u < 1" and "0 < n"
  shows "0 \<le> floorRandom u n \<and> floorRandom u n < n"
proof -
  have "0 \<le> u * of_int n" using assms by simp
  moreover have "u * of_int n < of_int n" using assms by simp
  ultimately show ?thesis unfolding floorRandom_def by (simp add: floor_less_iff)
qed

lemma handleProcessRewards_fst:
  "fst (handleProcessRewards today now label u1 u2 u3 d) =
     (let e = max 10 ((case selectedSurvey d of Some s \<Rightarrow> reward s | None \<Rightarrow> 50)
                       + (floorRandom u1 16 - 5));
          before = or_default (dailyEarnings (statsState d)) 0;
          cap = currentDailyCap d
      in if before + e > cap then max 0 (cap - before) else e)"
  by (simp add: handleProcessRewards_def currentDailyCap_def Let_def)

lemma handleProcessRewards_dailyEarnings:
  "dailyEarnings (statsState (snd (snd (handleProcessRewards today now label u1 u2 u3 d)))) =
     Some (or_default (dailyEarnings (statsState d)) 0
           + fst (handleProcessRewards today now label u1 u2 u3 d))"
  by (simp add: handleProcessRewards_def Let_def)

text \<open>
  The statistics the dashboard starts from, and those it stores after a reward, hold a
  \<open>dailyLimit\<close> that is set and not zero: for them the cap is the stored \<open>dailyLimit\<close>.
\<close>

lemma initStats_dailyLimit_set:
  "\<exists>l. dailyLimit (initStats today user) = Some l \<and> l \<noteq> 0"
  by (simp add: initStats_def defaultStats_def or_default_def Let_def split: option.splits)

lemma handleProcessRewards_dailyLimit_set:
  "\<exists>l. dailyLimit (statsState (snd (snd (handleProcessRewards today now label u1 u2 u3 d))))
         = Some l \<and> l \<noteq> 0"
  by (simp add: handleProcessRewards_def or_default_def Let_def split: option.splits)

text \<open>
  Claim C1. Whenever \<open>handleProcessRewards\<close> runs (with \<open>Math.random()\<close> in \<open>[0, 1)\<close>), the
  amount it returns is the selected survey's nominal reward, or 50 when no survey is
  selected, plus an integer variance between -5 and 10, raised to at least 10, and then
  cut down to what is left under the daily cap. So for every prior state the amount is at
  least 0 and at most \<open>max 0 (cap - dailyEarnings before)\<close>, the new daily earnings are the
  old ones plus the amount, and they stay within the cap when they were within it before.
  The cap is \<open>stats.dailyLimit || 250\<close>, which is the stored \<open>dailyLimit\<close> whenever that is
  set and not zero.
\<close>

theorem handleProcessRewards_reward:
  assumes "0 \<le> u1" and "u1 < 1"
  shows "let base = (case selectedSurvey d of Some s \<Rightarrow> reward s | None \<Rightarrow> 50);
             before = or_default (dailyEarnings (statsState d)) 0;
             cap = currentDailyCap d;
             r = fst (handleProcessRewards today now label u1 u2 u3 d)
         in (\<exists>v. - 5 \<le> v \<and> v \<le> 10 \<and>
               r = (if before + max 10 (base + v) > cap then max 0 (cap - before)
                    else max 10 (base + v)))
            \<and> 0 \<le> r \<and> r \<le> max 0 (cap - before)
            \<and> (before \<le> cap \<longrightarrow> before + r \<le> cap)
            \<and> dailyEarnings (statsState (snd (snd (handleProcessRewards today now label u1 u2 u3 d))))
                 = Some (before + r)
            \<and> (\<forall>l. dailyLimit (statsState d) = Some l \<and> l \<noteq> 0 \<longrightarrow> cap = l)"
proof -
  define v where "v = floorRandom u1 16 - 5"
  define base where "base = (case selectedSurvey d of Some s \<Rightarrow> reward s | None \<Rightarrow> 50)"
  define before where "before = or_default (dailyEarnings (statsState d)) 0"
  define cap where "cap = currentDailyCap d"
  define r where "r = fst (handleProcessRewards today now label u1 u2 u3 d)"
  have v: "- 5 \<le> v" "v \<le> 10"
    using floorRandom_range [of u1 16] assms by (simp_all add: v_def)
  have r: "r = (if before + max 10 (base + v) > cap then max 0 (cap - before)
                else max 10 (base + v))"
    unfolding r_def handleProcessRewards_fst by (simp add: Let_def v_def base_def before_def cap_def)
  have ex: "\<exists>v. - 5 \<le> v \<and> v \<le> 10 \<and>
               r = (if before + max 10 (base + v) > cap then max 0 (cap - before)
                    else max 10 (base + v))"
    using v r by blast
  have lo: "0 \<le> r" unfolding r by (simp add: max_def)
  have hi: "r \<le> max 0 (cap - before)" unfolding r by (simp add: max_def)
  have fit: "before \<le> cap \<longrightarrow> before + r \<le> cap" unfolding r by (simp add: max_def)
  have de: "dailyEarnings (statsState (snd (snd (handleProcessRewards today now label u1 u2 u3 d))))
              = Some (before + r)"
    unfolding r_def before_def by (rule handleProcessRewards_dailyEarnings)
  have lim: "\<forall>l. dailyLimit (statsState d) = Some l \<and> l \<noteq> 0 \<longrightarrow> cap = l"
    by (simp add: cap_def currentDailyCap_def or_default_def)
  show ?thesis
    unfolding Let_def
    using ex lo hi fit de lim
    unfolding r_def base_def before_def cap_def by blast
qed

theorem handleProcessRewards_reward_witness:
  "(0::real) \<le> 1 / 2 \<and> (1 / 2 :: real) < 1
   \<and> or_default (dailyEarnings (statsState scenarioDashboard)) 0 = 200
   \<and> dailyLimit (statsState scenarioDashboard) = Some 250
   \<and> currentDailyCap scenarioDashboard = 250
   \<and> fst (handleProcessRewards ''Tue Nov 03 2026'' 1793700000000 ''3 Nov, 10:15''
             (1 / 2) 0 0 scenarioDashboard) = 50
   \<and> dailyEarnings (statsState (snd (snd
         (handleProcessRewards ''Tue Nov 03 2026'' 1793700000000 ''3 Nov, 10:15''
            (1 / 2) 0 0 scenarioDashboard)))) = Some 250"
  using handleProcessRewards_reward [of "1 / 2" scenarioDashboard "''Tue Nov 03 2026''"
      1793700000000 "''3 Nov, 10:15''" 0 0]
  by (simp add: handleProcessRewards_fst scenarioDashboard_def scenarioStats_def
      availableSurveys_def currentDailyCap_def or_default_def floorRandom_def Let_def)

subsection \<open>Daily reset\<close>




subsection \<open>Eligibility gates\<close>

text \<open>
  Claim C3. When a survey is selected and none is being prepared, \<open>handleSurveySelect\<close>
  checks three gates in this order, and the first that fails decides: the global gate
  (global daily count at least 100000, whatever the user's own figures are), the earnings
  gate (daily earnings at least the daily earnings cap), the count gate (daily survey count
  at least the tier's limit). The survey starts exactly when all three pass; with the global
  count at 100000 or more it never starts.
\<close>

theorem handleSurveySelect_gates:
  "(count (globalStats d) \<ge> 100000 \<longrightarrow> fst (handleSurveySelect survey confirmUpgrade d) \<noteq> Started)
   \<and> (\<not> isSurveying d \<longrightarrow>
        fst (handleSurveySelect survey confirmUpgrade d) =
          (if count (globalStats d) \<ge> 100000 then GlobalLimitAlert
           else if or_default (dailyEarnings (statsState d)) 0 \<ge> currentDailyCap d
             then EarningsCapPrompt
           else if or_default (dailyCount (statsState d)) 0 \<ge> DAILY_LIMIT d
             then SurveyLimitAlert
           else Started))
   \<and> (fst (handleSurveySelect survey confirmUpgrade d) = Started \<longleftrightarrow>
        \<not> isSurveying d
        \<and> count (globalStats d) < 100000
        \<and> or_default (dailyEarnings (statsState d)) 0 < currentDailyCap d
        \<and> or_default (dailyCount (statsState d)) 0 < DAILY_LIMIT d)"
  by (simp add: handleSurveySelect_def GLOBAL_DAILY_CAP_def)

theorem handleSurveySelect_gates_witness:
  "\<not> isSurveying scenarioDashboard
   \<and> count (globalStats scenarioDashboard) = 99999
   \<and> fst (handleSurveySelect (availableSurveys ! 0) False scenarioDashboard) = Started
   \<and> count (globalStats (snd (handleSurveySelect (availableSurveys ! 0) False scenarioDashboard)))
        = 100000
   \<and> fst (handleSurveySelect (availableSurveys ! 1) False
            (handleSurveySelect_resume None
               (snd (handleSurveySelect (availableSurveys ! 0) False scenarioDashboard))))
        = GlobalLimitAlert"
  using handleSurveySelect_gates [of scenarioDashboard "availableSurveys ! 0" False]
    handleSurveySelect_gates [of "handleSurveySelect_resume None
        (snd (handleSurveySelect (availableSurveys ! 0) False scenarioDashboard))"
      "availableSurveys ! 1" False]
  by (simp add: handleSurveySelect_def handleSurveySelect_resume_def scenarioDashboard_def
      scenarioStats_def GLOBAL_DAILY_CAP_def currentDailyCap_def DAILY_LIMIT_def
      isHighPerformer_def or_default_def)

text \<open>
  Claim C4. The daily survey-count limit is 7 when the performance score is at least 75
  and 3 otherwise; a score of exactly 75 gives 7. It is the limit of the count gate of
  \<open>handleSurveySelect\<close>.
\<close>

theorem DAILY_LIMIT_tiers:
  "(performance (statsState d) \<ge> 75 \<longrightarrow> DAILY_LIMIT d = 7)
   \<and> (performance (statsState d) < 75 \<longrightarrow> DAILY_LIMIT d = 3)
   \<and> (performance (statsState d) = 75 \<longrightarrow> DAILY_LIMIT d = 7)
   \<and> (\<not> isSurveying d \<and> count (globalStats d) < GLOBAL_DAILY_CAP
        \<and> or_default (dailyEarnings (statsState d)) 0 < currentDailyCap d \<longrightarrow>
       (fst (handleSurveySelect survey confirmUpgrade d) = SurveyLimitAlert \<longleftrightarrow>
          or_default (dailyCount (statsState d)) 0
            \<ge> (if performance (statsState d) \<ge> 75 then 7 else 3)))"
  by (simp add: DAILY_LIMIT_def isHighPerformer_def handleSurveySelect_def)

theorem DAILY_LIMIT_tiers_witness:
  "performance (statsState (scenarioDashboard\<lparr>statsState := scenarioStats\<lparr>performance := 75\<rparr>\<rparr>)) = 75
   \<and> DAILY_LIMIT (scenarioDashboard\<lparr>statsState := scenarioStats\<lparr>performance := 75\<rparr>\<rparr>) = 7
   \<and> fst (handleSurveySelect (availableSurveys ! 0) False
            (scenarioDashboard\<lparr>statsState := scenarioStats\<lparr>performance := 75\<rparr>\<rparr>)) = Started
   \<and> performance (statsState (scenarioDashboard\<lparr>statsState := scenarioStats\<lparr>performance := 74\<rparr>\<rparr>)) = 74
   \<and> DAILY_LIMIT (scenarioDashboard\<lparr>statsState := scenarioStats\<lparr>performance := 74\<rparr>\<rparr>) = 3
   \<and> fst (handleSurveySelect (availableSurveys ! 0) False
            (scenarioDashboard\<lparr>statsState := scenarioStats\<lparr>performance := 74\<rparr>\<rparr>))
        = SurveyLimitAlert"
  using DAILY_LIMIT_tiers [of "scenarioDashboard\<lparr>statsState := scenarioStats\<lparr>performance := 75\<rparr>\<rparr>"
      "availableSurveys ! 0" False]
    DAILY_LIMIT_tiers [of "scenarioDashboard\<lparr>statsState := scenarioStats\<lparr>performance := 74\<rparr>\<rparr>"
      "availableSurveys ! 0" False]
  by (simp add: handleSurveySelect_def scenarioDashboard_def scenarioStats_def
      GLOBAL_DAILY_CAP_def currentDailyCap_def DAILY_LIMIT_def isHighPerformer_def
      or_default_def)

text \<open>
  Claim C10. On the home view the start-survey action counts as blocked by the earnings
  limit whenever less than 10 is left under the daily cap; a click then never opens the
  survey list. With a cap of 1000 or more the button is disabled in such a state, also when
  the daily earnings are still strictly below the cap, where the earnings gate of
  \<open>handleSurveySelect\<close> does not block. Such a state exists: 995 earned under a cap of 1000.
\<close>

theorem home_block_below_cap:
  "(currentDailyCap d - or_default (dailyEarnings (statsState d)) 0 < 10 \<longrightarrow>
      isEarningsLimitReached d \<and> isBlocked d
      \<and> (startOnClick d = d \<or> startOnClick d = d\<lparr>view := UpgradeLimit\<rparr>))
   \<and> (or_default (dailyEarnings (statsState d)) 0 < currentDailyCap d
        \<and> currentDailyCap d - or_default (dailyEarnings (statsState d)) 0 < 10
        \<and> 1000 \<le> currentDailyCap d \<longrightarrow>
      startDisabled d \<and> startOnClick d = d
      \<and> fst (handleSurveySelect survey confirmUpgrade d) \<noteq> EarningsCapPrompt)
   \<and> or_default (dailyEarnings (statsState nearCapDashboard)) 0 < currentDailyCap nearCapDashboard
   \<and> startDisabled nearCapDashboard
   \<and> fst (handleSurveySelect survey confirmUpgrade nearCapDashboard) = Started"
proof (intro conjI impI)
  assume a: "currentDailyCap d - or_default (dailyEarnings (statsState d)) 0 < 10"
  then show e: "isEarningsLimitReached d"
    by (simp add: isEarningsLimitReached_def remainingEarnings_def)
  then show "isBlocked d" by (simp add: isBlocked_def)
  from e show "startOnClick d = d \<or> startOnClick d = d\<lparr>view := UpgradeLimit\<rparr>"
    by (simp add: startOnClick_def isBlocked_def)
next
  assume a: "or_default (dailyEarnings (statsState d)) 0 < currentDailyCap d
        \<and> currentDailyCap d - or_default (dailyEarnings (statsState d)) 0 < 10
        \<and> 1000 \<le> currentDailyCap d"
  then have e: "isEarningsLimitReached d"
    by (simp add: isEarningsLimitReached_def remainingEarnings_def)
  with a show "startDisabled d" by (simp add: startDisabled_def isBlocked_def)
  from a e show "startOnClick d = d" by (simp add: startOnClick_def isBlocked_def)
  from a show "fst (handleSurveySelect survey confirmUpgrade d) \<noteq> EarningsCapPrompt"
    by (simp add: handleSurveySelect_def)
next
  show "or_default (dailyEarnings (statsState nearCapDashboard)) 0 < currentDailyCap nearCapDashboard"
    by (simp add: nearCapDashboard_def scenarioDashboard_def scenarioStats_def
        currentDailyCap_def or_default_def)
  show "startDisabled nearCapDashboard"
    by (simp add: nearCapDashboard_def scenarioDashboard_def scenarioStats_def
        startDisabled_def isBlocked_def isEarningsLimitReached_def remainingEarnings_def
        currentDailyCap_def or_default_def)
  show "fst (handleSurveySelect survey confirmUpgrade nearCapDashboard) = Started"
    by (simp add: nearCapDashboard_def scenarioDashboard_def scenarioStats_def
        handleSurveySelect_def GLOBAL_DAILY_CAP_def DAILY_LIMIT_def isHighPerformer_def
        currentDailyCap_def or_default_def)
qed

theorem home_block_below_cap_witness:
  "currentDailyCap nearCapDashboard = 1000
   \<and> or_default (dailyEarnings (statsState nearCapDashboard)) 0 = 995
   \<and> isEarningsLimitReached nearCapDashboard
   \<and> isBlocked nearCapDashboard
   \<and> startDisabled nearCapDashboard
   \<and> startOnClick nearCapDashboard = nearCapDashboard
   \<and> fst (handleSurveySelect (availableSurveys ! 0) False nearCapDashboard) = Started"
  using home_block_below_cap [of nearCapDashboard "availableSurveys ! 0" False]
  by (simp add: nearCapDashboard_def scenarioDashboard_def scenarioStats_def
      currentDailyCap_def or_default_def)

section \<open>Properties of the application shell and the forms\<close>

subsection \<open>Auxiliary facts\<close>

lemma findIndex_Some:
  "findIndex P xs = Some i \<Longrightarrow> i < length xs \<and> P (xs ! i) \<and> (\<forall>j<i. \<not> P (xs ! j))"
proof (induction xs arbitrary: i)
  case Nil
  then show ?case by simp
next
  case (Cons x xs)
  show ?case
  proof (cases "P x")
    case True
    with Cons.prems show ?thesis by simp
  next
    case False
    with Cons.prems obtain k where k: "findIndex P xs = Some k" "i = Suc k" by auto
    from Cons.IH [OF k(1)] False k(2) show ?thesis
      by (auto simp: nth_Cons split: nat.splits)
  qed
qed

lemma findIndex_None: "findIndex P xs = None \<longleftrightarrow> (\<forall>x\<in>set xs. \<not> P x)"
  by (induction xs) auto

lemma findIndex_append_Some:
  "findIndex P xs = Some i \<Longrightarrow> findIndex P (xs @ ys) = Some i"
  by (induction xs arbitrary: i) (auto split: if_splits)

lemma handleRegisterSuccess_session:
  "currentUser (handleRegisterSuccess today now label newUser app) =
     Some (newUser\<lparr>stats := Some (defaultStats today), earningsHistory := Some [],
                   settings := Some defaultSettings\<rparr>)"
  by (simp add: handleRegisterSuccess_def Let_def)

lemma handleRegisterSuccess_no_bonus:
  assumes "referralCode app = None \<or> referralCode app = Some []
           \<or> referralCode app = Some (username newUser)
           \<or> (\<exists>code. referralCode app = Some code
                 \<and> (\<forall>u\<in>set (registeredUsers app). username u \<noteq> code))"
  shows "registeredUsers (handleRegisterSuccess today now label newUser app) =
           registeredUsers app @ [newUser\<lparr>stats := Some (defaultStats today),
              earningsHistory := Some [], settings := Some defaultSettings\<rparr>]"
proof (cases "referralCode app")
  case None
  then show ?thesis by (simp add: handleRegisterSuccess_def Let_def)
next
  case (Some code)
  show ?thesis
  proof (cases "code \<noteq> [] \<and> code \<noteq> username newUser")
    case False
    with Some show ?thesis by (auto simp add: handleRegisterSuccess_def Let_def)
  next
    case True
    with Some assms have "\<forall>u\<in>set (registeredUsers app). username u \<noteq> code" by auto
    with True have "findIndex (\<lambda>u. username u = code)
        (registeredUsers app @ [newUser\<lparr>stats := Some (defaultStats today),
              earningsHistory := Some [], settings := Some defaultSettings\<rparr>]) = None"
      by (auto simp add: findIndex_None)
    with Some True show ?thesis by (simp add: handleRegisterSuccess_def Let_def)
  qed
qed

lemma handleRegisterSuccess_bonus:
  assumes "referralCode app = Some code" and "code \<noteq> []" and "code \<noteq> username newUser"
    and "findIndex (\<lambda>u. username u = code) (registeredUsers app) = Some i"
  shows "registeredUsers (handleRegisterSuccess today now label newUser app) =
           (registeredUsers app)
             [i := (registeredUsers app ! i)
                \<lparr>stats := Some ((case stats (registeredUsers app ! i) of
                                   Some s \<Rightarrow> s | None \<Rightarrow> defaultStats today)
                                \<lparr>earnings := earnings (case stats (registeredUsers app ! i) of
                                   Some s \<Rightarrow> s | None \<Rightarrow> defaultStats today) + 50\<rparr>),
                  earningsHistory := Some (\<lparr>entryId = now, entryDate = label, amount = 50,
                       entryTitle = ''Referral Bonus: '' @ username newUser\<rparr>
                     # (case earningsHistory (registeredUsers app ! i) of
                          Some h \<Rightarrow> h | None \<Rightarrow> []))\<rparr>]
           @ [newUser\<lparr>stats := Some (defaultStats today),
              earningsHistory := Some [], settings := Some defaultSettings\<rparr>]"
proof -
  from findIndex_Some [OF assms(4)] have i: "i < length (registeredUsers app)" by simp
  have "findIndex (\<lambda>u. username u = code)
        (registeredUsers app @ [newUser\<lparr>stats := Some (defaultStats today),
              earningsHistory := Some [], settings := Some defaultSettings\<rparr>]) = Some i"
    using assms(4) by (rule findIndex_append_Some)
  with assms(1-3) i show ?thesis
    by (simp add: handleRegisterSuccess_def Let_def nth_append list_update_append)
qed

lemma digitChar_simps:
  "digitChar 0 = CHR ''0''" "digitChar 1 = CHR ''1''" "digitChar 2 = CHR ''2''"
  "digitChar 3 = CHR ''3''" "digitChar 4 = CHR ''4''" "digitChar 5 = CHR ''5''"
  "digitChar 6 = CHR ''6''" "digitChar 7 = CHR ''7''" "digitChar 8 = CHR ''8''"
  "digitChar 9 = CHR ''9''"
  by code_simp+

lemma concrete_strings:
  "trim '' bob'' = ''bob''"
  "trim ''Alice'' = ''Alice''"
  "toLowerCase ''Alice'' = ''alice''"
  "toLowerCase ''alice'' = ''alice''"
  "toLowerCase ''bob'' = ''bob''"
  "toLowerCase '' bob'' = '' bob''"
  "validatePassword ''Secret123'' = None"
  "mpesaRegex ''QWERTY1234''"
  "take 5 (filter isDigit (trim ''12345'')) = ''12345''"
  "isDigit CHR ''1''" "isDigit CHR ''2''" "isDigit CHR ''3''"
  "isDigit CHR ''4''" "isDigit CHR ''5''"
  by code_simp+

lemma typeOtp_12345:
  "regOtp f = [[], [], [], [], []] \<Longrightarrow>
     typeOtp ''12345'' f = f\<lparr>regOtp := [''1'', ''2'', ''3'', ''4'', ''5'']\<rparr>"
  by (simp add: typeOtp_def enumerate_eq_zip upt_rec regHandleOtpChange_def setDigit_def
      concrete_strings)

lemma generateOtpWithAi_12345: "generateOtpWithAi (Some ''12345'') u = ''12345''"
  by (simp add: generateOtpWithAi_def concrete_strings Let_def)

lemma handleDetailsSubmit_duplicate:
  assumes "\<exists>u\<in>set users. toLowerCase (username u)
                          = toLowerCase (trim (formUsername (regFormData f)))"
  shows "handleDetailsSubmit users aiText r message f =
           f\<lparr>regErrors := [(''username'', ''Account already exists.'')],
             regIsLoading := False, regNotification := None\<rparr>"
  using assms by (simp add: handleDetailsSubmit_def Let_def list_ex_iff)

subsection \<open>Profile updates\<close>



subsection \<open>Referral bonus\<close>

text \<open>
  Claim C5, as amended. For every registration completed with a captured referral code
  that is not empty, is not the new user's own user name and names an existing user, the
  first existing user of that name (the referrer) has cumulative earnings 50 higher than
  before and one new earnings-history entry, of amount 50 and titled
  \<open>Referral Bonus:\<close> followed by the new user's name, in front of the former history; every
  other existing record is unchanged; and the new user's record, appended to the
  collection and made the session, carries the fixed registration defaults.
\<close>

theorem handleRegisterSuccess_referral:
  assumes "referralCode app = Some code" and "code \<noteq> []" and "code \<noteq> username newUser"
    and "\<exists>u\<in>set (registeredUsers app). username u = code"
  shows "\<exists>i<length (registeredUsers app).
           let app' = handleRegisterSuccess today now label newUser app;
               referrer = registeredUsers app ! i;
               referrer' = registeredUsers app' ! i;
               newcomer = last (registeredUsers app')
           in username referrer = code
              \<and> (\<forall>j<i. username (registeredUsers app ! j) \<noteq> code)
              \<and> username referrer' = code
              \<and> earningsOf referrer' = earningsOf referrer + 50
              \<and> historyOf referrer' =
                   \<lparr>entryId = now, entryDate = label, amount = 50,
                    entryTitle = ''Referral Bonus: '' @ username newUser\<rparr> # historyOf referrer
              \<and> length (registeredUsers app') = length (registeredUsers app) + 1
              \<and> (\<forall>j<length (registeredUsers app). j \<noteq> i \<longrightarrow>
                    registeredUsers app' ! j = registeredUsers app ! j)
              \<and> newcomer = newUser\<lparr>stats := Some (defaultStats today),
                                     earningsHistory := Some [],
                                     settings := Some defaultSettings\<rparr>
              \<and> currentUser app' = Some newcomer"
proof -
  from assms(4) obtain i
    where fi: "findIndex (\<lambda>u. username u = code) (registeredUsers app) = Some i"
    using findIndex_None [of "\<lambda>u. username u = code" "registeredUsers app"] by fastforce
  from findIndex_Some [OF fi]
  have i: "i < length (registeredUsers app)" "username (registeredUsers app ! i) = code"
    "\<forall>j<i. username (registeredUsers app ! j) \<noteq> code" by auto
  note eq = handleRegisterSuccess_bonus [OF assms(1-3) fi, of today now label]
  show ?thesis
    apply (rule exI [of _ i])
    unfolding Let_def eq handleRegisterSuccess_session
    using i
    by (simp add: nth_append earningsOf_def historyOf_def defaultStats_def split: option.splits)
qed

theorem handleRegisterSuccess_referral_witness:
  "referralCode referralApp = Some ''alice'' \<and> ''alice'' \<noteq> [] \<and> ''alice'' \<noteq> username bobUser
   \<and> (\<exists>u\<in>set (registeredUsers referralApp). username u = ''alice'')
   \<and> earningsOf (registeredUsers referralApp ! 0) = 1200
   \<and> earningsOf (registeredUsers (handleRegisterSuccess ''Tue Nov 03 2026'' 1793700000000
         ''3 Nov, 10:15'' bobUser referralApp) ! 0) = 1250
   \<and> map entryTitle (historyOf (registeredUsers (handleRegisterSuccess ''Tue Nov 03 2026''
         1793700000000 ''3 Nov, 10:15'' bobUser referralApp) ! 0)) = [''Referral Bonus: bob'']
   \<and> stats (last (registeredUsers (handleRegisterSuccess ''Tue Nov 03 2026'' 1793700000000
         ''3 Nov, 10:15'' bobUser referralApp))) = Some (defaultStats ''Tue Nov 03 2026'')"
  using handleRegisterSuccess_referral [of referralApp "''alice''" bobUser
      "''Tue Nov 03 2026''" 1793700000000 "''3 Nov, 10:15''"]
  by (simp add: referralApp_def bobUser_def yesterdayUser_def scenarioStats_def
      handleRegisterSuccess_def earningsOf_def historyOf_def Let_def)

text \<open>
  The claim as first stated fails when the captured code is the new user's own user name:
  the registry holds \<open>'' bob''\<close>, the code is \<open>'' bob''\<close> and so is the name typed into the
  form (which passes the duplicate check, see claim C7). The code names an existing user,
  whose earnings stay at 120 and whose history stays empty.
\<close>

theorem handleRegisterSuccess_referral_counterexample:
  "referralCode selfReferralApp = Some '' bob''
   \<and> username (registeredUsers selfReferralApp ! 0) = '' bob''
   \<and> earningsOf (registeredUsers selfReferralApp ! 0) = 120
   \<and> \<not> (earningsOf (registeredUsers (handleRegisterSuccess ''Tue Nov 03 2026'' 1793700000000
             ''3 Nov, 10:15'' (confirmRegistration paddedForm) selfReferralApp) ! 0)
          = earningsOf (registeredUsers selfReferralApp ! 0) + 50)
   \<and> historyOf (registeredUsers (handleRegisterSuccess ''Tue Nov 03 2026'' 1793700000000
         ''3 Nov, 10:15'' (confirmRegistration paddedForm) selfReferralApp) ! 0) = []"
  by (simp add: selfReferralApp_def paddedBob_def paddedForm_def initRegisterForm_def
      confirmRegistration_def handleRegisterSuccess_def earningsOf_def historyOf_def
      defaultStats_def Let_def)

text \<open>
  Claim C9. The referral lookup compares the captured code with the stored user names by
  exact equality, and the bonus is skipped when the code is the new user's own user name:
  in both cases, and so for a code that differs from every stored name (if only in the
  case of its letters), the collection after \<open>handleRegisterSuccess\<close> is the old one with
  the new record appended. The duplicate check of \<open>handleDetailsSubmit\<close>, by contrast,
  compares the lower-cased names, and rejects the typed name (trimmed) on a match.
\<close>

theorem referral_lookup_exact:
  "(referralCode app = Some code \<and> code = username newUser \<longrightarrow>
      registeredUsers (handleRegisterSuccess today now label newUser app) =
        registeredUsers app @ [newUser\<lparr>stats := Some (defaultStats today),
           earningsHistory := Some [], settings := Some defaultSettings\<rparr>])
   \<and> (referralCode app = Some code \<and> (\<forall>u\<in>set (registeredUsers app). username u \<noteq> code) \<longrightarrow>
      registeredUsers (handleRegisterSuccess today now label newUser app) =
        registeredUsers app @ [newUser\<lparr>stats := Some (defaultStats today),
           earningsHistory := Some [], settings := Some defaultSettings\<rparr>])
   \<and> ((\<exists>u\<in>set users. toLowerCase (username u)
                         = toLowerCase (trim (formUsername (regFormData f)))) \<longrightarrow>
      regErrors (handleDetailsSubmit users aiText r message f)
        = [(''username'', ''Account already exists.'')]
      \<and> regStep (handleDetailsSubmit users aiText r message f) = regStep f)"
proof (intro conjI impI)
  assume "referralCode app = Some code \<and> code = username newUser"
  then show "registeredUsers (handleRegisterSuccess today now label newUser app) =
        registeredUsers app @ [newUser\<lparr>stats := Some (defaultStats today),
           earningsHistory := Some [], settings := Some defaultSettings\<rparr>]"
    by (intro handleRegisterSuccess_no_bonus) simp
next
  assume "referralCode app = Some code \<and> (\<forall>u\<in>set (registeredUsers app). username u \<noteq> code)"
  then show "registeredUsers (handleRegisterSuccess today now label newUser app) =
        registeredUsers app @ [newUser\<lparr>stats := Some (defaultStats today),
           earningsHistory := Some [], settings := Some defaultSettings\<rparr>]"
    by (intro handleRegisterSuccess_no_bonus) simp
next
  assume a: "\<exists>u\<in>set users. toLowerCase (username u)
                         = toLowerCase (trim (formUsername (regFormData f)))"
  show "regErrors (handleDetailsSubmit users aiText r message f)
        = [(''username'', ''Account already exists.'')]"
    by (simp add: handleDetailsSubmit_duplicate [OF a])
  show "regStep (handleDetailsSubmit users aiText r message f) = regStep f"
    by (simp add: handleDetailsSubmit_duplicate [OF a])
qed

theorem referral_lookup_exact_witness:
  "referralCode (referralApp\<lparr>referralCode := Some ''Alice''\<rparr>) = Some ''Alice''
   \<and> map username (registeredUsers (referralApp\<lparr>referralCode := Some ''Alice''\<rparr>)) = [''alice'']
   \<and> toLowerCase ''alice'' = toLowerCase ''Alice''
   \<and> registeredUsers (handleRegisterSuccess ''Tue Nov 03 2026'' 1793700000000 ''3 Nov, 10:15''
        bobUser (referralApp\<lparr>referralCode := Some ''Alice''\<rparr>))
      = [yesterdayUser,
         bobUser\<lparr>stats := Some (defaultStats ''Tue Nov 03 2026''), earningsHistory := Some [],
                  settings := Some defaultSettings\<rparr>]
   \<and> regErrors (handleDetailsSubmit (registeredUsers referralApp) None 0 None
        (initRegisterForm\<lparr>regFormData := \<lparr>formUsername = ''Alice'',
            formPassword = ''Secret123'', formMpesaCode = ''QWERTY1234''\<rparr>\<rparr>))
      = [(''username'', ''Account already exists.'')]"
  using referral_lookup_exact [of "referralApp\<lparr>referralCode := Some ''Alice''\<rparr>" "''Alice''"
      bobUser "''Tue Nov 03 2026''" 1793700000000 "''3 Nov, 10:15''"
      "registeredUsers referralApp"
      "initRegisterForm\<lparr>regFormData := \<lparr>formUsername = ''Alice'',
            formPassword = ''Secret123'', formMpesaCode = ''QWERTY1234''\<rparr>\<rparr>" None 0 None]
  by (simp add: referralApp_def yesterdayUser_def concrete_strings)

subsection \<open>One-time codes\<close>

text \<open>
  Claim C6, as amended. In both forms the submitted code is accepted if and only if the
  text of the five boxes equals the most recently generated code (in the login form a
  matched user is also required, which the code step always has). A resend replaces the
  stored code by the newly generated one and leaves the boxes as they are; afterwards an
  entry is accepted if and only if it equals the new code, so the previous code is refused
  whenever the new code differs from it.
\<close>

theorem otp_latest_code:
  "(regStep f = Otp \<longrightarrow>
      (regStep (regHandleOtpSubmit f) = Confirmation \<longleftrightarrow> concat (regOtp f) = regGeneratedOtp f))
   \<and> regGeneratedOtp (regHandleResendOtp aiText u message f) = generateOtpWithAi aiText u
   \<and> regOtp (regHandleResendOtp aiText u message f) = regOtp f
   \<and> regStep (regHandleResendOtp aiText u message f) = regStep f
   \<and> (regStep f = Otp \<longrightarrow>
      (regStep (regHandleOtpSubmit (regHandleResendOtp aiText u message f\<lparr>regOtp := entry\<rparr>))
         = Confirmation \<longleftrightarrow> concat entry = generateOtpWithAi aiText u))
   \<and> (regStep f = Otp \<and> concat entry = regGeneratedOtp f
        \<and> generateOtpWithAi aiText u \<noteq> regGeneratedOtp f \<longrightarrow>
      regStep (regHandleOtpSubmit (regHandleResendOtp aiText u message f\<lparr>regOtp := entry\<rparr>))
         \<noteq> Confirmation)
   \<and> (matchedUser g = Some user \<longrightarrow>
      (fst (loginHandleOtpSubmit g) = Some user \<longleftrightarrow> concat (loginOtp g) = loginGeneratedOtp g)
      \<and> (fst (loginHandleOtpSubmit g) = None \<longleftrightarrow> concat (loginOtp g) \<noteq> loginGeneratedOtp g))
   \<and> (loginStep g = ForgotVerify \<longrightarrow>
      (loginStep (handleForgotVerifySubmit g) = ForgotReset
         \<longleftrightarrow> concat (loginOtp g) = loginGeneratedOtp g))
   \<and> loginGeneratedOtp (loginHandleResendOtp aiText u message g) = generateOtpWithAi aiText u
   \<and> loginOtp (loginHandleResendOtp aiText u message g) = loginOtp g
   \<and> matchedUser (loginHandleResendOtp aiText u message g) = matchedUser g
   \<and> (matchedUser g = Some user \<and> concat entry = loginGeneratedOtp g
        \<and> generateOtpWithAi aiText u \<noteq> loginGeneratedOtp g \<longrightarrow>
      fst (loginHandleOtpSubmit (loginHandleResendOtp aiText u message g\<lparr>loginOtp := entry\<rparr>))
         = None)"
  by (simp add: regHandleOtpSubmit_def regHandleResendOtp_def loginHandleOtpSubmit_def
      handleForgotVerifySubmit_def loginHandleResendOtp_def Let_def)

theorem otp_latest_code_witness:
  "regStep otpForm = Otp \<and> concat (regOtp otpForm) = regGeneratedOtp otpForm
   \<and> regStep (regHandleOtpSubmit otpForm) = Confirmation
   \<and> generateOtpWithAi None (1 / 2) = ''55000''
   \<and> generateOtpWithAi None (1 / 2) \<noteq> regGeneratedOtp otpForm
   \<and> regStep (regHandleOtpSubmit (regHandleResendOtp None (1 / 2) None otpForm
        \<lparr>regOtp := [''1'', ''2'', ''3'', ''4'', ''5'']\<rparr>)) \<noteq> Confirmation
   \<and> matchedUser otpLogin = Some yesterdayUser
   \<and> fst (loginHandleOtpSubmit otpLogin) = Some yesterdayUser
   \<and> fst (loginHandleOtpSubmit (loginHandleResendOtp None (1 / 2) None otpLogin
        \<lparr>loginOtp := [''1'', ''2'', ''3'', ''4'', ''5'']\<rparr>)) = None
   \<and> loginStep (otpLogin\<lparr>loginStep := ForgotVerify\<rparr>) = ForgotVerify
   \<and> loginStep (handleForgotVerifySubmit (otpLogin\<lparr>loginStep := ForgotVerify\<rparr>)) = ForgotReset"
  using otp_latest_code [of otpForm None "1 / 2" None "[''1'', ''2'', ''3'', ''4'', ''5'']"
      otpLogin yesterdayUser]
    otp_latest_code [of otpForm None "1 / 2" None "[''1'', ''2'', ''3'', ''4'', ''5'']"
      "otpLogin\<lparr>loginStep := ForgotVerify\<rparr>" yesterdayUser]
  by (simp add: otpForm_def otpLogin_def initRegisterForm_def generateOtpWithAi_def
      toString_def digitChar_simps Let_def)

text \<open>
  The claim as first stated fails when the resend generates the code it replaces: with
  \<open>12345\<close> stored and the provider answering \<open>12345\<close> again, the previous code is still
  accepted after the resend, in the registration form and in the login form.
\<close>

theorem resend_same_code_counterexample:
  "regStep otpForm = Otp
   \<and> regGeneratedOtp otpForm = ''12345''
   \<and> regGeneratedOtp (regHandleResendOtp (Some ''12345'') 0 None otpForm) = ''12345''
   \<and> regStep (regHandleOtpSubmit (regHandleResendOtp (Some ''12345'') 0 None otpForm
        \<lparr>regOtp := [''1'', ''2'', ''3'', ''4'', ''5'']\<rparr>)) = Confirmation
   \<and> loginGeneratedOtp otpLogin = ''12345''
   \<and> fst (loginHandleOtpSubmit (loginHandleResendOtp (Some ''12345'') 0 None otpLogin
        \<lparr>loginOtp := [''1'', ''2'', ''3'', ''4'', ''5'']\<rparr>)) = Some yesterdayUser"
  by (simp add: otpForm_def otpLogin_def initRegisterForm_def regHandleResendOtp_def
      regHandleOtpSubmit_def loginHandleResendOtp_def loginHandleOtpSubmit_def
      generateOtpWithAi_12345 Let_def)

subsection \<open>Duplicate accounts\<close>

text \<open>
  Claim C7. A registration whose user name matches an existing record without regard to
  case should fail with the duplicate-account error and leave the collection unchanged.
  \<open>handleDetailsSubmit\<close> compares the trimmed name with the stored names, but the name
  that is stored is the untrimmed one. So the name \<open>'' bob''\<close>, registered once on an empty
  collection, is accepted a second time: the second submission raises no error, reaches
  the code step and the confirmation, and the collection ends with two records of the same
  user name.
\<close>

theorem duplicate_check_misses_padded_name:
  "let f1 = handleDetailsSubmit (registeredUsers emptyApp) (Some ''12345'') 0 None paddedForm;
       f2 = regHandleOtpSubmit (typeOtp ''12345'' f1);
       app1 = handleLogout (handleRegisterSuccess ''Mon Nov 02 2026'' 1793600000000
                 ''2 Nov, 09:00'' (confirmRegistration f2) emptyApp);
       g1 = handleDetailsSubmit (registeredUsers app1) (Some ''12345'') 0 None paddedForm;
       g2 = regHandleOtpSubmit (typeOtp ''12345'' g1);
       app2 = handleRegisterSuccess ''Tue Nov 03 2026'' 1793700000000 ''3 Nov, 10:15''
                 (confirmRegistration g2) app1
   in regStep f2 = Confirmation
      \<and> map username (registeredUsers app1) = ['' bob'']
      \<and> formUsername (regFormData paddedForm) = '' bob''
      \<and> regErrors g1 = [] \<and> regStep g1 = Otp \<and> regStep g2 = Confirmation
      \<and> map username (registeredUsers app2) = ['' bob'', '' bob'']"
  by (simp add: Let_def handleDetailsSubmit_def paddedForm_def initRegisterForm_def emptyApp_def
      concrete_strings generateOtpWithAi_12345 typeOtp_12345 regHandleOtpSubmit_def
      handleRegisterSuccess_def handleLogout_def confirmRegistration_def)

end
